theory Spec2Isabelle
  imports Complex_Main
begin

section \<open>Fusion retrieval: the data and the collaborators\<close>

text \<open>
  The notebook's \<^verbatim>\<open>fusion_retrieval(vectorstore, bm25, query, k, alpha)\<close> is embedded
  step by step. Python's \<open>int\<close> is \<open>int\<close>, one-dimensional numpy arrays and Python
  lists are HOL lists, and every exception the body can raise is a value \<open>Inl e\<close> of a
  sum type. Floating-point numbers are read as exact reals: each arithmetic expression
  of the source is the same expression over the reals, without the rounding of the
  machine formats. Statements below are therefore about which expression is computed,
  about lengths, order and errors; nothing is stated that holds only because a small
  term such as \<open>epsilon\<close> is not rounded away.
\<close>

datatype py_error = ValueError | IndexError

record document =
  page_content :: string
  metadata :: "(string \<times> string) list"

text \<open>
  The vector store and the BM25 index are objects of third-party libraries. The function
  only calls three methods and reads one attribute, so each object is the record of
  exactly those: \<open>ntotal\<close> is \<^verbatim>\<open>vectorstore.index.ntotal\<close>, the two searches take the
  query and \<open>k\<close>, and \<open>get_scores\<close> takes the token list.
\<close>

record vectorstore =
  ntotal :: nat
  similarity_search :: "string \<Rightarrow> nat \<Rightarrow> document list"
  similarity_search_with_score :: "string \<Rightarrow> nat \<Rightarrow> (document \<times> real) list"

record bm25_index =
  get_scores :: "string list \<Rightarrow> real list"

subsection \<open>\<^verbatim>\<open>str.split()\<close>\<close>

text \<open>
  \<^verbatim>\<open>query.split()\<close> without arguments cuts at runs of whitespace and drops empty
  pieces. A \<open>char\<close> is read as a code point below 256; the characters below are the
  code points in that range for which \<^verbatim>\<open>str.isspace\<close> holds (the ASCII ones, the
  next-line control \<open>0x85\<close> and the no-break space \<open>0xA0\<close>).
\<close>

definition py_isspace :: "char \<Rightarrow> bool" where
  "py_isspace c \<longleftrightarrow>
     c \<in> set [CHR 0x20, CHR 0x09, CHR 0x0A, CHR 0x0B, CHR 0x0C, CHR 0x0D,
               CHR 0x1C, CHR 0x1D, CHR 0x1E, CHR 0x1F, CHR 0x85, CHR 0xA0]"

fun py_split_from :: "string \<Rightarrow> string \<Rightarrow> string list" where
  "py_split_from w [] = (if w = [] then [] else [w])"
| "py_split_from w (c # cs) =
     (if py_isspace c
      then (if w = [] then py_split_from [] cs else w # py_split_from [] cs)
      else py_split_from (w @ [c]) cs)"

definition py_split :: "string \<Rightarrow> string list" where
  "py_split s = py_split_from [] s"

text \<open>
  \<^verbatim>\<open>create_bm25_index\<close> tokenizes each document's text and hands the token lists, in the
  order of \<open>documents\<close>, to the library's constructor (a parameter here).
\<close>

definition create_bm25_index ::
  "(string list list \<Rightarrow> bm25_index) \<Rightarrow> document list \<Rightarrow> bm25_index" where
  "create_bm25_index BM25Okapi documents =
     (let tokenized_docs = map (\<lambda>doc. py_split (page_content doc)) documents
      in BM25Okapi tokenized_docs)"

section \<open>The numpy operations the body uses\<close>

text \<open>
  \<^verbatim>\<open>np.min\<close> and \<^verbatim>\<open>np.max\<close> reduce the array from its first element and raise
  \<open>ValueError\<close> on an array of size zero.
\<close>

definition np_min :: "real list \<Rightarrow> py_error + real" where
  "np_min a = (case a of [] \<Rightarrow> Inl ValueError | x # xs \<Rightarrow> Inr (foldl min x xs))"

definition np_max :: "real list \<Rightarrow> py_error + real" where
  "np_max a = (case a of [] \<Rightarrow> Inl ValueError | x # xs \<Rightarrow> Inr (foldl max x xs))"

text \<open>A Python scalar times an array.\<close>

definition np_scale :: "real \<Rightarrow> real list \<Rightarrow> real list" where
  "np_scale c a = map (\<lambda>x. c * x) a"

text \<open>
  The sum of two one-dimensional arrays follows numpy's broadcasting: equal shapes add
  elementwise, an array of length one is stretched over the other, and any other pair
  of shapes raises \<open>ValueError\<close>.
\<close>

definition np_add :: "real list \<Rightarrow> real list \<Rightarrow> py_error + real list" where
  "np_add a b =
     (if length a = length b then Inr (map (\<lambda>(x, y). x + y) (zip a b))
      else if length a = 1 then Inr (map (\<lambda>y. hd a + y) b)
      else if length b = 1 then Inr (map (\<lambda>x. x + hd b) a)
      else Inl ValueError)"

text \<open>
  \<^verbatim>\<open>np.argsort\<close> returns the indices that put the array in ascending order. The
  source calls it with the default sort kind, which is not stable: the order in which
  indices of equal values come out is not fixed and differs between numpy builds.
  \<open>argsort_result a p\<close> says what is promised of a result \<open>p\<close>: it lists every index of
  \<open>a\<close> once and the values of \<open>a\<close> in that order are ascending.
\<close>

definition argsort_result :: "real list \<Rightarrow> nat list \<Rightarrow> bool" where
  "argsort_result a p \<longleftrightarrow> sort p = [0..<length a] \<and> sorted (map (\<lambda>i. a ! i) p)"

text \<open>
  Where a function value is needed, \<open>np_argsort\<close> is one of the results numpy may
  give, the one that leaves equal values in ascending index order. Whatever is stated
  about the order of equal scores is stated for every result that satisfies
  \<open>argsort_result\<close>, not for this choice.
\<close>

definition np_argsort :: "real list \<Rightarrow> nat list" where
  "np_argsort a = sort_key (\<lambda>i. a ! i) [0..<length a]"

text \<open>
  The slice \<^verbatim>\<open>xs[:k]\<close>: the first \<open>k\<close> elements, or for a negative \<open>k\<close> all but the
  last \<open>-k\<close>.
\<close>

definition py_slice_to :: "int \<Rightarrow> 'a list \<Rightarrow> 'a list" where
  "py_slice_to k xs =
     (if 0 \<le> k then take (nat k) xs else take (length xs - nat (- k)) xs)"

text \<open>
  The list comprehension \<^verbatim>\<open>[all_docs[i] for i in idx]\<close> over non-negative indices:
  indexing a Python list past its end raises \<open>IndexError\<close>.
\<close>

fun py_getitems :: "'a list \<Rightarrow> nat list \<Rightarrow> py_error + 'a list" where
  "py_getitems xs [] = Inr []"
| "py_getitems xs (i # idx) =
     (if i < length xs
      then (case py_getitems xs idx of Inl e \<Rightarrow> Inl e | Inr ys \<Rightarrow> Inr (xs ! i # ys))
      else Inl IndexError)"

section \<open>The steps of \<^verbatim>\<open>fusion_retrieval\<close>\<close>

definition epsilon :: real where
  "epsilon = 1 / 100000000"

text \<open>
  Step 4, first line:
  \<^verbatim>\<open>vector_scores = 1 - (vector_scores - np.min(vector_scores)) / (np.max(vector_scores) - np.min(vector_scores) + epsilon)\<close>
\<close>

definition normalize_vector_scores :: "real list \<Rightarrow> py_error + real list" where
  "normalize_vector_scores vector_scores =
     (case np_min vector_scores of
        Inl e \<Rightarrow> Inl e
      | Inr lo \<Rightarrow>
          (case np_max vector_scores of
             Inl e \<Rightarrow> Inl e
           | Inr hi \<Rightarrow> Inr (map (\<lambda>s. 1 - (s - lo) / (hi - lo + epsilon)) vector_scores)))"

text \<open>
  Step 4, second line:
  \<^verbatim>\<open>bm25_scores = (bm25_scores - np.min(bm25_scores)) / (np.max(bm25_scores) - np.min(bm25_scores) + epsilon)\<close>
\<close>

definition normalize_bm25_scores :: "real list \<Rightarrow> py_error + real list" where
  "normalize_bm25_scores bm25_scores =
     (case np_min bm25_scores of
        Inl e \<Rightarrow> Inl e
      | Inr lo \<Rightarrow>
          (case np_max bm25_scores of
             Inl e \<Rightarrow> Inl e
           | Inr hi \<Rightarrow> Inr (map (\<lambda>s. (s - lo) / (hi - lo + epsilon)) bm25_scores)))"

text \<open>
  A numpy array is an object and a local variable holds a reference to it. To speak
  about what the two lines do to the array they read, the arrays are put in a store
  (a list of arrays) and a reference is a position in it. The operators \<^verbatim>\<open>-\<close> and
  \<^verbatim>\<open>/\<close> of the right-hand sides return new arrays, and the assignment rebinds the
  local name to the result; neither line has an in-place operator or an indexed
  assignment. So each line leaves the store as it was, adds the result at a fresh
  position and returns that position as the new value of the name.
\<close>

type_synonym array_store = "real list list"

definition assign_vector_scores :: "array_store \<Rightarrow> nat \<Rightarrow> py_error + (array_store \<times> nat)" where
  "assign_vector_scores store vector_scores =
     (case normalize_vector_scores (store ! vector_scores) of
        Inl e \<Rightarrow> Inl e
      | Inr result \<Rightarrow> Inr (store @ [result], length store))"

definition assign_bm25_scores :: "array_store \<Rightarrow> nat \<Rightarrow> py_error + (array_store \<times> nat)" where
  "assign_bm25_scores store bm25_scores =
     (case normalize_bm25_scores (store ! bm25_scores) of
        Inl e \<Rightarrow> Inl e
      | Inr result \<Rightarrow> Inr (store @ [result], length store))"

text \<open>
  Step 5: \<^verbatim>\<open>combined_scores = alpha * vector_scores + (1 - alpha) * bm25_scores\<close>
\<close>

definition combined_scores :: "real \<Rightarrow> real list \<Rightarrow> real list \<Rightarrow> py_error + real list" where
  "combined_scores alpha vector_scores bm25_scores =
     np_add (np_scale alpha vector_scores) (np_scale (1 - alpha) bm25_scores)"

text \<open>Step 6: \<^verbatim>\<open>sorted_indices = np.argsort(combined_scores)[::-1]\<close>\<close>

definition sorted_indices :: "real list \<Rightarrow> nat list" where
  "sorted_indices combined = rev (np_argsort combined)"

text \<open>
  Steps 6 and 7 when \<^verbatim>\<open>np.argsort(combined_scores)\<close> has returned the index array \<open>p\<close>:
  reverse it, cut it at \<open>k\<close> and fetch the documents.
\<close>

definition top_k_of_argsort :: "document list \<Rightarrow> int \<Rightarrow> nat list \<Rightarrow> py_error + document list" where
  "top_k_of_argsort all_docs k p = py_getitems all_docs (py_slice_to k (rev p))"

text \<open>
  Steps 5 to 7 on two normalized score vectors: combine, rank, and return
  \<^verbatim>\<open>[all_docs[i] for i in sorted_indices[:k]]\<close>.
\<close>

definition rank_top_k ::
  "document list \<Rightarrow> real list \<Rightarrow> real list \<Rightarrow> int \<Rightarrow> real \<Rightarrow> py_error + document list" where
  "rank_top_k all_docs vector_scores bm25_scores k alpha =
     (case combined_scores alpha vector_scores bm25_scores of
        Inl e \<Rightarrow> Inl e
      | Inr combined \<Rightarrow> py_getitems all_docs (py_slice_to k (sorted_indices combined)))"

text \<open>
  Steps 4 to 7 on the values the collaborators returned: the documents of the store,
  the raw BM25 scores and the raw vector scores. The vector scores are normalized first,
  then the BM25 scores, as in the source; an error of a step ends the function.
\<close>

definition fusion_steps ::
  "document list \<Rightarrow> real list \<Rightarrow> real list \<Rightarrow> int \<Rightarrow> real \<Rightarrow> py_error + document list" where
  "fusion_steps all_docs bm25_raw vector_raw k alpha =
     (case normalize_vector_scores vector_raw of
        Inl e \<Rightarrow> Inl e
      | Inr vector_scores \<Rightarrow>
          (case normalize_bm25_scores bm25_raw of
             Inl e \<Rightarrow> Inl e
           | Inr bm25_scores \<Rightarrow> rank_top_k all_docs vector_scores bm25_scores k alpha))"

text \<open>
  The whole function. Steps 1 to 3 are the three calls to the collaborators; the vector
  scores are the second components of \<open>vector_results\<close>, in the order the store
  returned them.
\<close>

definition fusion_retrieval ::
  "vectorstore \<Rightarrow> bm25_index \<Rightarrow> string \<Rightarrow> int \<Rightarrow> real \<Rightarrow> py_error + document list" where
  "fusion_retrieval vs bm25 query k alpha =
     (let all_docs = similarity_search vs [] (ntotal vs);
          bm25_scores = get_scores bm25 (py_split query);
          vector_results = similarity_search_with_score vs query (length all_docs);
          vector_scores = map snd vector_results
      in fusion_steps all_docs bm25_scores vector_scores k alpha)"

section \<open>Concrete inputs\<close>

text \<open>Concrete collaborators, used as inputs on which the function is run.\<close>

definition doc :: "string \<Rightarrow> document" where
  "doc s = \<lparr>page_content = s, metadata = []\<rparr>"

text \<open>
  A store that answers every query with the same hits: the documents in corpus order,
  each with a given distance.
\<close>

definition fixed_store :: "document list \<Rightarrow> real list \<Rightarrow> vectorstore" where
  "fixed_store docs dists =
     \<lparr>ntotal = length docs,
      similarity_search = (\<lambda>q k. take k docs),
      similarity_search_with_score = (\<lambda>q k. take k (zip docs dists))\<rparr>"

definition fixed_bm25 :: "real list \<Rightarrow> bm25_index" where
  "fixed_bm25 scores = \<lparr>get_scores = (\<lambda>tokens. scores)\<rparr>"

text \<open>
  An exact nearest-neighbour index over one-dimensional embeddings. Like the library's
  flat L2 index it returns the \<open>k\<close> nearest documents by increasing squared distance
  to the embedded query.
\<close>

definition flat_hits :: "(string \<Rightarrow> real) \<Rightarrow> document list \<Rightarrow> string \<Rightarrow> (document \<times> real) list" where
  "flat_hits embedding docs q =
     sort_key snd
       (map (\<lambda>d. (d, (embedding (page_content d) - embedding q) * (embedding (page_content d) - embedding q))) docs)"

definition flat_index :: "(string \<Rightarrow> real) \<Rightarrow> document list \<Rightarrow> vectorstore" where
  "flat_index embedding docs =
     \<lparr>ntotal = length docs,
      similarity_search = (\<lambda>q k. map fst (take k (flat_hits embedding docs q))),
      similarity_search_with_score = (\<lambda>q k. take k (flat_hits embedding docs q))\<rparr>"

text \<open>
  A lexical scorer in corpus order: the score of a document is the number of query
  tokens that occur in it.
\<close>

definition overlap_index :: "string list list \<Rightarrow> bm25_index" where
  "overlap_index tokenized_docs =
     \<lparr>get_scores = (\<lambda>tokens.
        map (\<lambda>d. real (length (filter (\<lambda>t. t \<in> set d) tokens))) tokenized_docs)\<rparr>"

definition climate_docs :: "document list" where
  "climate_docs = [doc ''arctic sea ice'', doc ''ocean currents'', doc ''coral reef loss'']"

definition climate_embed :: "string \<Rightarrow> real" where
  "climate_embed s =
     (if s = ''arctic sea ice'' then 1
      else if s = ''ocean currents'' then 2
      else if s = ''coral reef loss'' then 4
      else if s = ''coral reef ice'' then 4
      else 0)"

section \<open>Basic facts about the numpy operations\<close>

lemma np_scale_one: "np_scale 1 a = a"
  by (simp add: np_scale_def)

lemma np_scale_zero: "np_scale 0 a = replicate (length a) 0"
  by (simp add: np_scale_def map_replicate_const)

lemma np_add_zeros_right:
  "length a = n \<Longrightarrow> np_add a (replicate n 0) = Inr a"
  by (simp add: np_add_def list_eq_iff_nth_eq)

lemma np_add_zeros_left:
  "length b = n \<Longrightarrow> np_add (replicate n 0) b = Inr b"
  by (simp add: np_add_def list_eq_iff_nth_eq)

subsection \<open>Reductions and normalization\<close>

lemma foldl_min_Min: "foldl min (x::real) xs = Min (set (x # xs))"
proof -
  have "(\<lambda>y s. min s y) = (min :: real \<Rightarrow> real \<Rightarrow> real)"
    by (simp add: fun_eq_iff min.commute)
  then show ?thesis
    by (simp add: foldl_conv_fold Min.set_eq_fold del: set_simps)
qed

lemma foldl_max_Max: "foldl max (x::real) xs = Max (set (x # xs))"
proof -
  have "(\<lambda>y s. max s y) = (max :: real \<Rightarrow> real \<Rightarrow> real)"
    by (simp add: fun_eq_iff max.commute)
  then show ?thesis
    by (simp add: foldl_conv_fold Max.set_eq_fold del: set_simps)
qed

lemma np_min_nonempty: "a \<noteq> [] \<Longrightarrow> np_min a = Inr (Min (set a))"
  by (cases a) (simp_all add: np_min_def foldl_min_Min del: set_simps)

lemma np_max_nonempty: "a \<noteq> [] \<Longrightarrow> np_max a = Inr (Max (set a))"
  by (cases a) (simp_all add: np_max_def foldl_max_Max del: set_simps)

lemma normalize_bm25_scores_nonempty:
  "s \<noteq> [] \<Longrightarrow> normalize_bm25_scores s =
     Inr (map (\<lambda>x. (x - Min (set s)) / (Max (set s) - Min (set s) + epsilon)) s)"
  by (simp add: normalize_bm25_scores_def np_min_nonempty np_max_nonempty)

lemma normalize_vector_scores_nonempty:
  "s \<noteq> [] \<Longrightarrow> normalize_vector_scores s =
     Inr (map (\<lambda>x. 1 - (x - Min (set s)) / (Max (set s) - Min (set s) + epsilon)) s)"
  by (simp add: normalize_vector_scores_def np_min_nonempty np_max_nonempty)

lemma normalize_vector_scores_empty: "normalize_vector_scores [] = Inl ValueError"
  by (simp add: normalize_vector_scores_def np_min_def)

lemma normalize_bm25_scores_empty: "normalize_bm25_scores [] = Inl ValueError"
  by (simp add: normalize_bm25_scores_def np_min_def)

subsection \<open>Combination\<close>

lemma combined_scores_same_length:
  assumes "length v = length l"
  shows "\<exists>c. combined_scores alpha v l = Inr c \<and> length c = length v
           \<and> (\<forall>i < length v. c ! i = alpha * v ! i + (1 - alpha) * l ! i)"
  using assms
  by (simp add: combined_scores_def np_add_def np_scale_def)

subsection \<open>Ranking\<close>

lemma set_sorted_indices: "set (sorted_indices c) = {0..<length c}"
  by (simp add: sorted_indices_def np_argsort_def)

lemma length_sorted_indices: "length (sorted_indices c) = length c"
  by (simp add: sorted_indices_def np_argsort_def)

lemma distinct_sorted_indices: "distinct (sorted_indices c)"
  by (simp add: sorted_indices_def np_argsort_def)

lemma set_py_slice_to: "set (py_slice_to k xs) \<subseteq> set xs"
  by (auto simp: py_slice_to_def dest: in_set_takeD)

lemma length_py_slice_to:
  "length (py_slice_to k xs) =
     (if 0 \<le> k then min (nat k) (length xs) else length xs - nat (- k))"
  by (auto simp: py_slice_to_def)

lemma py_getitems_in_range:
  "\<forall>i \<in> set idx. i < length xs \<Longrightarrow> py_getitems xs idx = Inr (map (\<lambda>i. xs ! i) idx)"
  by (induction idx) simp_all

lemma rank_top_k_aligned:
  assumes "combined_scores alpha v l = Inr c" and "length c = length all_docs"
  shows "rank_top_k all_docs v l k alpha =
           Inr (map (\<lambda>i. all_docs ! i) (py_slice_to k (sorted_indices c)))"
proof -
  have "\<forall>i \<in> set (py_slice_to k (sorted_indices c)). i < length all_docs"
    using set_py_slice_to [of k "sorted_indices c"] assms(2)
    by (auto simp: set_sorted_indices)
  then show ?thesis
    using assms(1) by (simp add: rank_top_k_def py_getitems_in_range)
qed

subsection \<open>Results of \<^verbatim>\<open>np.argsort\<close>\<close>

lemma argsort_result_set: "argsort_result a p \<Longrightarrow> set p = {0..<length a}"
  by (metis argsort_result_def set_sort set_upt)

lemma argsort_result_distinct: "argsort_result a p \<Longrightarrow> distinct p"
  by (metis argsort_result_def distinct_sort distinct_upt)

lemma argsort_result_length: "argsort_result a p \<Longrightarrow> length p = length a"
  by (metis argsort_result_def length_sort length_upt diff_zero)

lemma argsort_result_ascending:
  "argsort_result a p \<Longrightarrow> sorted_wrt (\<lambda>i j. a ! i \<le> a ! j) p"
  by (simp add: argsort_result_def sorted_map)

lemma argsort_result_np_argsort: "argsort_result a (np_argsort a)"
proof -
  have "sort (np_argsort a) = [0..<length a]"
    by (rule sorted_distinct_set_unique) (simp_all add: np_argsort_def)
  moreover have "sorted (map (\<lambda>i. a ! i) (np_argsort a))"
    by (simp add: np_argsort_def sorted_sort_key)
  ultimately show ?thesis
    by (simp add: argsort_result_def)
qed

lemma top_k_of_argsort_result:
  assumes "argsort_result c p" and "length c = length all_docs"
  shows "top_k_of_argsort all_docs k p
           = Inr (map (\<lambda>i. all_docs ! i) (py_slice_to k (rev p)))"
proof -
  have "\<forall>i \<in> set (py_slice_to k (rev p)). i < length all_docs"
    using set_py_slice_to [of k "rev p"] argsort_result_set [OF assms(1)] assms(2)
    by auto
  then show ?thesis
    by (simp add: top_k_of_argsort_def py_getitems_in_range)
qed

section \<open>The claims\<close>

text \<open>
  C8. For two normalized score vectors of equal length, the combined scores with
  \<open>alpha = 1\<close> are the vector scores, element for element, and with \<open>alpha = 0\<close> they
  are the lexical (BM25) scores.
\<close>

theorem combined_scores_alpha_extremes:
  assumes "length vector_scores = length bm25_scores"
  shows "combined_scores 1 vector_scores bm25_scores = Inr vector_scores
       \<and> combined_scores 0 vector_scores bm25_scores = Inr bm25_scores"
  using assms
  by (simp add: combined_scores_def np_scale_one np_scale_zero
      np_add_zeros_right np_add_zeros_left)

theorem combined_scores_alpha_extremes_witness:
  "length [1, 1/2, 0 :: real] = length [0, 1/4, 1 :: real]
   \<and> combined_scores 1 [1, 1/2, 0] [0, 1/4, 1] = Inr [1, 1/2, 0]
   \<and> combined_scores 0 [1, 1/2, 0] [0, 1/4, 1] = Inr [0, 1/4, 1]"
  using combined_scores_alpha_extremes [of "[1, 1/2, 0]" "[0, 1/4, 1]"]
  by simp

text \<open>
  C2. For a score vector \<open>s\<close> of length at least one, the BM25 line of step 4 (scores
  where higher is better) returns \<open>(s[i] - min s) / (max s - min s + epsilon)\<close> at every
  index, and the vector line (distances, lower is better) returns one minus that, with
  \<open>epsilon = 1e-8\<close> in the denominator. The result has the length of the input and
  position \<open>i\<close> of the result comes from position \<open>i\<close> of the input. The result is a new
  array: the array the line read is in the store afterwards with the values it had.
\<close>

theorem normalization_formula:
  assumes "s \<noteq> []" and "r < length store" and "store ! r = s"
  shows "\<exists>b v. normalize_bm25_scores s = Inr b \<and> normalize_vector_scores s = Inr v
           \<and> length b = length s \<and> length v = length s
           \<and> (\<forall>i < length s.
                 b ! i = (s ! i - Min (set s)) / (Max (set s) - Min (set s) + epsilon)
               \<and> v ! i = 1 - (s ! i - Min (set s)) / (Max (set s) - Min (set s) + epsilon))
           \<and> epsilon = 1 / 10 ^ 8
           \<and> (\<exists>store'. assign_bm25_scores store r = Inr (store', length store)
                 \<and> store' ! r = s \<and> store' ! length store = b)
           \<and> (\<exists>store'. assign_vector_scores store r = Inr (store', length store)
                 \<and> store' ! r = s \<and> store' ! length store = v)"
  using assms
  by (simp add: normalize_bm25_scores_nonempty normalize_vector_scores_nonempty epsilon_def
      assign_bm25_scores_def assign_vector_scores_def nth_append)

theorem normalization_formula_witness:
  "\<exists>b v. normalize_bm25_scores [0, 2, 4, 2] = Inr b
      \<and> normalize_vector_scores [0, 2, 4, 2] = Inr v
      \<and> length b = 4 \<and> length v = 4
      \<and> b ! 1 = (2 - 0) / (4 - 0 + epsilon)
      \<and> v ! 1 = 1 - (2 - 0) / (4 - 0 + epsilon)
      \<and> (\<exists>store'. assign_bm25_scores [[5, 6], [0, 2, 4, 2]] 1 = Inr (store', 2)
            \<and> store' ! 1 = [0, 2, 4, 2] \<and> store' ! 2 = b)
      \<and> (\<exists>store'. assign_vector_scores [[5, 6], [0, 2, 4, 2]] 1 = Inr (store', 2)
            \<and> store' ! 1 = [0, 2, 4, 2] \<and> store' ! 2 = v)"
proof -
  have "[0, 2, 4, 2 :: real] \<noteq> []"
    and "1 < length [[5, 6], [0, 2, 4, 2 :: real]]"
    and "[[5, 6], [0, 2, 4, 2 :: real]] ! 1 = [0, 2, 4, 2]"
    by simp_all
  from normalization_formula [OF this] show ?thesis
    by (auto simp: numeral_2_eq_2)
qed

text \<open>
  C3. When all values of a non-empty score vector are the same (a single value
  included), every normalized BM25 score is 0 and every normalized vector score is 1;
  the code has no special case for it, the numerator is 0 and \<open>epsilon\<close> keeps the
  denominator positive.
\<close>

theorem degenerate_normalization:
  assumes "s \<noteq> []" and "\<forall>x \<in> set s. x = c"
  shows "normalize_bm25_scores s = Inr (replicate (length s) 0)
       \<and> normalize_vector_scores s = Inr (replicate (length s) 1)"
proof -
  from assms have set_s: "set s = {c}"
    by (cases s) auto
  have "map (\<lambda>x. (x - Min (set s)) / (Max (set s) - Min (set s) + epsilon)) s
        = map (\<lambda>x. 0) s"
    by (rule map_cong [OF refl]) (simp add: set_s)
  moreover
  have "map (\<lambda>x. 1 - (x - Min (set s)) / (Max (set s) - Min (set s) + epsilon)) s
        = map (\<lambda>x. 1) s"
    by (rule map_cong [OF refl]) (simp add: set_s)
  ultimately show ?thesis
    using assms(1)
    by (simp add: normalize_bm25_scores_nonempty normalize_vector_scores_nonempty
        map_replicate_const)
qed

theorem degenerate_normalization_witness:
  "normalize_bm25_scores [7, 7, 7] = Inr [0, 0, 0]
   \<and> normalize_vector_scores [7, 7, 7] = Inr [1, 1, 1]
   \<and> normalize_bm25_scores [3] = Inr [0]
   \<and> normalize_vector_scores [3] = Inr [1]"
  using degenerate_normalization [of "[7, 7, 7]" 7] degenerate_normalization [of "[3]" 3]
  by (simp add: numeral_3_eq_3)

text \<open>
  C7. Normalization fails in one case only: on a vector of length 0 (numpy's reduction
  of a zero-size array raises \<open>ValueError\<close>, the error that stands for the empty
  corpus); on every vector of length at least one it returns a result. The same holds
  for steps 4 to 7 as a whole when the documents and the two raw score vectors have the
  same length.
\<close>

theorem normalization_fails_only_on_empty:
  "((\<exists>e. normalize_vector_scores s = Inl e) \<longleftrightarrow> s = [])
   \<and> ((\<exists>e. normalize_bm25_scores s = Inl e) \<longleftrightarrow> s = [])
   \<and> normalize_vector_scores [] = Inl ValueError
   \<and> normalize_bm25_scores [] = Inl ValueError
   \<and> (s \<noteq> [] \<longrightarrow> (\<exists>v b. normalize_vector_scores s = Inr v \<and> normalize_bm25_scores s = Inr b))
   \<and> (length bm25_raw = length all_docs \<and> length vector_raw = length all_docs \<longrightarrow>
        ((\<exists>e. fusion_steps all_docs bm25_raw vector_raw k alpha = Inl e) \<longleftrightarrow> all_docs = [])
        \<and> (all_docs = [] \<longrightarrow> fusion_steps all_docs bm25_raw vector_raw k alpha = Inl ValueError))"
proof -
  have norm: "((\<exists>e. normalize_vector_scores s = Inl e) \<longleftrightarrow> s = [])
      \<and> ((\<exists>e. normalize_bm25_scores s = Inl e) \<longleftrightarrow> s = [])
      \<and> (s \<noteq> [] \<longrightarrow> (\<exists>v b. normalize_vector_scores s = Inr v \<and> normalize_bm25_scores s = Inr b))"
    by (cases "s = []")
       (simp_all add: normalize_vector_scores_empty normalize_bm25_scores_empty
          normalize_vector_scores_nonempty normalize_bm25_scores_nonempty)
  have steps: "((\<exists>e. fusion_steps all_docs bm25_raw vector_raw k alpha = Inl e) \<longleftrightarrow> all_docs = [])
      \<and> (all_docs = [] \<longrightarrow> fusion_steps all_docs bm25_raw vector_raw k alpha = Inl ValueError)"
    if len: "length bm25_raw = length all_docs" "length vector_raw = length all_docs"
  proof (cases "all_docs = []")
    case True
    then show ?thesis
      using len by (simp add: fusion_steps_def normalize_vector_scores_empty)
  next
    case False
    then have ne: "vector_raw \<noteq> []" "bm25_raw \<noteq> []"
      using len by auto
    obtain v where v: "normalize_vector_scores vector_raw = Inr v" "length v = length all_docs"
      using ne(1) len(2) by (simp add: normalize_vector_scores_nonempty)
    obtain b where b: "normalize_bm25_scores bm25_raw = Inr b" "length b = length all_docs"
      using ne(2) len(1) by (simp add: normalize_bm25_scores_nonempty)
    obtain c where c: "combined_scores alpha v b = Inr c" "length c = length v"
      using combined_scores_same_length [of v b alpha] v(2) b(2) by auto
    have "fusion_steps all_docs bm25_raw vector_raw k alpha = rank_top_k all_docs v b k alpha"
      by (simp add: fusion_steps_def v(1) b(1))
    also have "\<dots> = Inr (map (\<lambda>i. all_docs ! i) (py_slice_to k (sorted_indices c)))"
      using rank_top_k_aligned [OF c(1)] c(2) v(2) by simp
    finally show ?thesis
      using False by simp
  qed
  show ?thesis
    using norm steps
    by (simp add: normalize_vector_scores_empty normalize_bm25_scores_empty)
qed

theorem normalization_fails_only_on_empty_witness:
  "(\<exists>e. normalize_vector_scores [] = Inl e)
   \<and> \<not> (\<exists>e. normalize_vector_scores [3, 5] = Inl e)
   \<and> \<not> (\<exists>e. normalize_bm25_scores [3, 5] = Inl e)
   \<and> (\<exists>v b. normalize_vector_scores [3, 5] = Inr v \<and> normalize_bm25_scores [3, 5] = Inr b)
   \<and> \<not> (\<exists>e. fusion_steps [doc ''a'', doc ''b''] [0, 1] [3, 5] 1 (1/2) = Inl e)
   \<and> fusion_steps [] [] [] 1 (1/2) = Inl ValueError"
  using normalization_fails_only_on_empty
      [where s = "[]" and all_docs = "[]" and bm25_raw = "[]" and vector_raw = "[]"
         and k = 1 and alpha = "1/2"]
    normalization_fails_only_on_empty
      [where s = "[3, 5]" and all_docs = "[doc ''a'', doc ''b'']" and bm25_raw = "[0, 1]"
         and vector_raw = "[3, 5]" and k = 1 and alpha = "1/2"]
  by simp

text \<open>
  C4, as the code has it. For score vectors as long as the document list and \<open>k \<ge> 0\<close>,
  steps 5 to 7 return the documents at the first \<open>min k n\<close> indices of the ranking, and
  a \<open>k\<close> above \<open>n\<close> returns all \<open>n\<close> documents without an error. The ranking lists
  every index once, and no document comes before one with a larger score. The order of
  documents with equal scores is not fixed by the code: it is the order in which
  \<^verbatim>\<open>np.argsort\<close> leaves equal values, reversed. The statement about the ranking holds
  for every score array of the corpus length and every result \<open>p\<close> that \<^verbatim>\<open>np.argsort\<close>
  may return on it; the function of this theory is the case \<open>p = np_argsort combined\<close>.
\<close>

theorem rank_top_k_descending:
  assumes "length vector_scores = length all_docs"
    and "length bm25_scores = length all_docs"
    and "0 \<le> k"
  shows "(\<exists>combined.
            combined_scores alpha vector_scores bm25_scores = Inr combined
          \<and> length combined = length all_docs
          \<and> (\<forall>i < length all_docs.
                combined ! i = alpha * vector_scores ! i + (1 - alpha) * bm25_scores ! i)
          \<and> argsort_result combined (np_argsort combined)
          \<and> rank_top_k all_docs vector_scores bm25_scores k alpha
                = top_k_of_argsort all_docs k (np_argsort combined))
       \<and> (\<forall>c p. length c = length all_docs \<and> argsort_result c p \<longrightarrow>
              distinct (rev p) \<and> set (rev p) = {0..<length all_docs}
            \<and> sorted_wrt (\<lambda>i j. c ! j \<le> c ! i) (rev p)
            \<and> top_k_of_argsort all_docs k p
                 = Inr (map (\<lambda>i. all_docs ! i) (take (nat k) (rev p)))
            \<and> length (take (nat k) (rev p)) = min (nat k) (length all_docs))"
proof (intro conjI allI impI)
  obtain c where c: "combined_scores alpha vector_scores bm25_scores = Inr c"
    and len: "length c = length vector_scores"
    and val: "\<forall>i < length vector_scores.
                c ! i = alpha * vector_scores ! i + (1 - alpha) * bm25_scores ! i"
    using combined_scores_same_length [of vector_scores bm25_scores alpha] assms(1,2)
    by auto
  have "rank_top_k all_docs vector_scores bm25_scores k alpha
          = top_k_of_argsort all_docs k (np_argsort c)"
    by (simp add: rank_top_k_def c top_k_of_argsort_def sorted_indices_def)
  then show "\<exists>combined.
            combined_scores alpha vector_scores bm25_scores = Inr combined
          \<and> length combined = length all_docs
          \<and> (\<forall>i < length all_docs.
                combined ! i = alpha * vector_scores ! i + (1 - alpha) * bm25_scores ! i)
          \<and> argsort_result combined (np_argsort combined)
          \<and> rank_top_k all_docs vector_scores bm25_scores k alpha
                = top_k_of_argsort all_docs k (np_argsort combined)"
    using c len val assms(1) argsort_result_np_argsort [of c] by auto
next
  fix c p
  assume cp: "length c = length all_docs \<and> argsort_result c p"
  then have len: "length c = length all_docs" and res: "argsort_result c p"
    by simp_all
  show "distinct (rev p)"
    using argsort_result_distinct [OF res] by simp
  show "set (rev p) = {0..<length all_docs}"
    using argsort_result_set [OF res] len by simp
  show "sorted_wrt (\<lambda>i j. c ! j \<le> c ! i) (rev p)"
    using argsort_result_ascending [OF res] by (simp add: sorted_wrt_rev)
  show "top_k_of_argsort all_docs k p
          = Inr (map (\<lambda>i. all_docs ! i) (take (nat k) (rev p)))"
    using top_k_of_argsort_result [OF res len] assms(3) by (simp add: py_slice_to_def)
  show "length (take (nat k) (rev p)) = min (nat k) (length all_docs)"
    using argsort_result_length [OF res] len by (simp add: min.commute)
qed

text \<open>
  The theorem at a corpus of three documents with the combined scores
  \<open>[1/2, 1/4, 1/2]\<close>: \<^verbatim>\<open>np.argsort\<close> may return \<open>[1, 2, 0]\<close> or \<open>[1, 0, 2]\<close>, and the
  two tied documents come back in either order.
\<close>

theorem rank_top_k_descending_witness:
  "combined_scores (1/2) [1, 0, 1] [0, 1/2, 0] = Inr [1/2, 1/4, 1/2]
   \<and> argsort_result [1/2, 1/4, 1/2] [1, 2, 0]
   \<and> top_k_of_argsort [doc ''a'', doc ''b'', doc ''c''] 5 [1, 2, 0]
        = Inr [doc ''a'', doc ''c'', doc ''b'']
   \<and> argsort_result [1/2, 1/4, 1/2] [1, 0, 2]
   \<and> top_k_of_argsort [doc ''a'', doc ''b'', doc ''c''] 5 [1, 0, 2]
        = Inr [doc ''c'', doc ''a'', doc ''b'']
   \<and> rank_top_k [doc ''a'', doc ''b'', doc ''c''] [1, 0, 1] [0, 1/2, 0] 5 (1/2)
        = Inr [doc ''c'', doc ''a'', doc ''b'']"
proof -
  let ?docs = "[doc ''a'', doc ''b'', doc ''c'']"
  let ?c = "[1/2, 1/4, 1/2 :: real]"
  have h: "length [1, 0, 1 :: real] = length ?docs"
    "length [0, 1/2, 0 :: real] = length ?docs" "(0::int) \<le> 5"
    by simp_all
  note inst = rank_top_k_descending [OF h, of "1/2"]
  have comb: "combined_scores (1/2) [1, 0, 1] [0, 1/2, 0] = Inr ?c"
    by (simp add: combined_scores_def np_add_def np_scale_def)
  have r1: "argsort_result ?c [1, 2, 0]"
    by (simp add: argsort_result_def)
  have r2: "argsort_result ?c [1, 0, 2]"
    by (simp add: argsort_result_def)
  have lc: "length ?c = length ?docs"
    by simp
  from inst have every: "\<forall>c p. length c = length ?docs \<and> argsort_result c p \<longrightarrow>
      top_k_of_argsort ?docs 5 p = Inr (map (\<lambda>i. ?docs ! i) (take (nat 5) (rev p)))"
    by blast
  have t1: "top_k_of_argsort ?docs 5 [1, 2, 0] = Inr [doc ''a'', doc ''c'', doc ''b'']"
    using every [rule_format, of ?c "[1, 2, 0]"] lc r1 by simp
  have t2: "top_k_of_argsort ?docs 5 [1, 0, 2] = Inr [doc ''c'', doc ''a'', doc ''b'']"
    using every [rule_format, of ?c "[1, 0, 2]"] lc r2 by simp
  have "rank_top_k ?docs [1, 0, 1] [0, 1/2, 0] 5 (1/2)
      = top_k_of_argsort ?docs 5 (np_argsort ?c)"
    using inst comb by auto
  moreover have "np_argsort ?c = [1, 0, 2]"
    by (simp add: np_argsort_def)
  ultimately have "rank_top_k ?docs [1, 0, 1] [0, 1/2, 0] 5 (1/2)
      = Inr [doc ''c'', doc ''a'', doc ''b'']"
    using t2 by simp
  with comb r1 r2 t1 t2 show ?thesis
    by simp
qed

text \<open>
  The claim as stated fails on a tie. Two documents have the combined score \<open>1/2\<close>
  (exact in binary floating point as well). \<open>[0, 1]\<close> is a result \<^verbatim>\<open>np.argsort\<close> may
  return on \<open>[1/2, 1/2]\<close>, and it is the one a stable sort returns; the code reverses
  it and the documents come back as second, first.
\<close>

theorem rank_top_k_tie_counterexample:
  "combined_scores (1/2) [1, 1] [0, 0] = Inr [1/2, 1/2]
   \<and> argsort_result [1/2, 1/2] [0, 1]
   \<and> top_k_of_argsort [doc ''first'', doc ''second''] 2 [0, 1]
        = Inr [doc ''second'', doc ''first'']
   \<and> rank_top_k [doc ''first'', doc ''second''] [1, 1] [0, 0] 2 (1/2)
        = Inr [doc ''second'', doc ''first'']
   \<and> rank_top_k [doc ''first'', doc ''second''] [1, 1] [0, 0] 2 (1/2)
        \<noteq> Inr [doc ''first'', doc ''second'']
   \<and> fusion_steps [doc ''first'', doc ''second''] [3, 3] [5, 5] 2 (1/2)
        = Inr [doc ''second'', doc ''first'']"
  by (simp add: fusion_steps_def normalize_vector_scores_def normalize_bm25_scores_def
      np_min_def np_max_def rank_top_k_def combined_scores_def np_add_def np_scale_def
      sorted_indices_def np_argsort_def py_slice_to_def epsilon_def doc_def
      argsort_result_def top_k_of_argsort_def)

text \<open>
  C5, as the code has it. The code has no length check of its own. Two score vectors of
  different lengths make the sum of step 5 raise numpy's \<open>ValueError\<close> when neither has
  length one; a vector of length one is broadcast, its single score combined with every
  score of the other vector, and step 5 raises nothing.
\<close>

theorem unequal_lengths_value_error_or_broadcast:
  assumes "length vector_scores \<noteq> length bm25_scores"
  shows "(length vector_scores \<noteq> 1 \<and> length bm25_scores \<noteq> 1 \<longrightarrow>
            combined_scores alpha vector_scores bm25_scores = Inl ValueError
          \<and> rank_top_k all_docs vector_scores bm25_scores k alpha = Inl ValueError)
       \<and> (length bm25_scores = 1 \<longrightarrow>
            combined_scores alpha vector_scores bm25_scores
              = Inr (map (\<lambda>v. alpha * v + (1 - alpha) * hd bm25_scores) vector_scores))
       \<and> (length vector_scores = 1 \<longrightarrow>
            combined_scores alpha vector_scores bm25_scores
              = Inr (map (\<lambda>l. alpha * hd vector_scores + (1 - alpha) * l) bm25_scores))"
proof (intro conjI impI)
  assume ne1: "length vector_scores \<noteq> 1 \<and> length bm25_scores \<noteq> 1"
  then show err: "combined_scores alpha vector_scores bm25_scores = Inl ValueError"
    using assms by (simp add: combined_scores_def np_add_def np_scale_def)
  then show "rank_top_k all_docs vector_scores bm25_scores k alpha = Inl ValueError"
    by (simp add: rank_top_k_def)
next
  assume "length bm25_scores = 1"
  then obtain b where b: "bm25_scores = [b]"
    by (cases bm25_scores) simp_all
  have "length vector_scores \<noteq> Suc 0"
    using assms b by simp
  then show "combined_scores alpha vector_scores bm25_scores
      = Inr (map (\<lambda>v. alpha * v + (1 - alpha) * hd bm25_scores) vector_scores)"
    by (simp add: b combined_scores_def np_add_def np_scale_def)
next
  assume "length vector_scores = 1"
  then obtain v where v: "vector_scores = [v]"
    by (cases vector_scores) simp_all
  have "length bm25_scores \<noteq> Suc 0"
    using assms v by simp
  then show "combined_scores alpha vector_scores bm25_scores
      = Inr (map (\<lambda>l. alpha * hd vector_scores + (1 - alpha) * l) bm25_scores)"
    by (simp add: v combined_scores_def np_add_def np_scale_def)
qed

theorem unequal_lengths_value_error_or_broadcast_witness:
  "rank_top_k [doc ''a'', doc ''b'', doc ''c''] [1, 1/2, 0] [0, 1] 2 (1/2) = Inl ValueError
   \<and> combined_scores (1/2) [1, 1/2, 0] [1] = Inr [1, 3/4, 1/2]
   \<and> combined_scores (1/2) [1] [0, 1/2, 1] = Inr [1/2, 3/4, 1]"
  using unequal_lengths_value_error_or_broadcast
      [of "[1, 1/2, 0]" "[0, 1]" "1/2" "[doc ''a'', doc ''b'', doc ''c'']" 2]
    unequal_lengths_value_error_or_broadcast [of "[1, 1/2, 0]" "[1]" "1/2"]
    unequal_lengths_value_error_or_broadcast [of "[1]" "[0, 1/2, 1]" "1/2"]
  by simp

text \<open>
  The claim as stated fails when one vector has length one: two vector scores and a
  single BM25 score are combined and ranked without any error.
\<close>

theorem unequal_lengths_counterexample:
  "length [1, 0 :: real] \<noteq> length [1/2 :: real]
   \<and> combined_scores (1/2) [1, 0] [1/2] = Inr [3/4, 1/4]
   \<and> rank_top_k [doc ''a'', doc ''b''] [1, 0] [1/2] 2 (1/2) = Inr [doc ''a'', doc ''b'']
   \<and> fusion_steps [doc ''a'', doc ''b''] [7] [1, 3] 2 (1/2) = Inr [doc ''a'', doc ''b'']"
  by (simp add: fusion_steps_def normalize_vector_scores_def normalize_bm25_scores_def
      np_min_def np_max_def rank_top_k_def combined_scores_def np_add_def np_scale_def
      sorted_indices_def np_argsort_def py_slice_to_def epsilon_def doc_def)

text \<open>
  C6, as the code has it. The code validates neither \<open>alpha\<close> nor \<open>k\<close>. For score
  vectors as long as the document list, steps 5 to 7 return a result for every real
  \<open>alpha\<close> and every integer \<open>k\<close>: \<open>alpha\<close> enters the weighted sum as it is, \<open>k = 0\<close>
  gives the empty list, and a negative \<open>k\<close> drops the last \<open>-k\<close> documents of the
  ranking.
\<close>

theorem rank_top_k_accepts_any_alpha_and_k:
  assumes "length vector_scores = length all_docs"
    and "length bm25_scores = length all_docs"
  shows "\<exists>result. rank_top_k all_docs vector_scores bm25_scores k alpha = Inr result
           \<and> length result = (if 0 \<le> k then min (nat k) (length all_docs)
                               else length all_docs - nat (- k))"
proof -
  obtain c where c: "combined_scores alpha vector_scores bm25_scores = Inr c"
    and len: "length c = length vector_scores"
    using combined_scores_same_length [of vector_scores bm25_scores alpha] assms
    by auto
  have "rank_top_k all_docs vector_scores bm25_scores k alpha
          = Inr (map (\<lambda>i. all_docs ! i) (py_slice_to k (sorted_indices c)))"
    using rank_top_k_aligned [OF c] len assms(1) by simp
  moreover have "length (py_slice_to k (sorted_indices c))
      = (if 0 \<le> k then min (nat k) (length all_docs) else length all_docs - nat (- k))"
    using len assms(1) by (simp add: length_py_slice_to length_sorted_indices)
  ultimately show ?thesis
    by simp
qed

theorem rank_top_k_accepts_any_alpha_and_k_witness:
  "\<exists>result. rank_top_k [doc ''a'', doc ''b'', doc ''c''] [1, 1/2, 0] [0, 1, 1/2] (- 1) 2
               = Inr result
      \<and> length result = 2"
proof -
  have "length [1, 1/2, 0 :: real] = length [doc ''a'', doc ''b'', doc ''c'']"
    and "length [0, 1, 1/2 :: real] = length [doc ''a'', doc ''b'', doc ''c'']"
    by simp_all
  from rank_top_k_accepts_any_alpha_and_k [OF this, of "- 1" 2] show ?thesis
    by (auto simp: numeral_2_eq_2)
qed

text \<open>
  The claim as stated fails: with \<open>alpha = 2\<close>, with \<open>alpha = -1\<close>, with \<open>k = 0\<close> and
  with \<open>k = -1\<close> the call returns a list of documents.
\<close>

theorem invalid_alpha_and_k_counterexample:
  "rank_top_k [doc ''a'', doc ''b''] [1, 0] [0, 1] 1 2 = Inr [doc ''a'']
   \<and> rank_top_k [doc ''a'', doc ''b''] [1, 0] [0, 1] 1 (- 1) = Inr [doc ''b'']
   \<and> rank_top_k [doc ''a'', doc ''b''] [1, 0] [1, 0] 0 (1/2) = Inr []
   \<and> rank_top_k [doc ''a'', doc ''b''] [1, 0] [1, 0] (- 1) (1/2) = Inr [doc ''a'']
   \<and> fusion_steps [doc ''a'', doc ''b''] [0, 3] [1, 9] 1 2 = Inr [doc ''a'']
   \<and> fusion_steps [doc ''a'', doc ''b''] [0, 3] [1, 9] 0 (1/2) = Inr []"
  by (simp add: fusion_steps_def normalize_vector_scores_def normalize_bm25_scores_def
      np_min_def np_max_def rank_top_k_def combined_scores_def np_add_def np_scale_def
      sorted_indices_def np_argsort_def py_slice_to_def epsilon_def doc_def)

text \<open>
  C9. The scenario of the specification: four documents, raw BM25 scores
  \<open>[0, 2, 4, 2]\<close> and raw vector distances \<open>[0.1, 0.5, 0.05, 0.9]\<close> in the same document
  order, \<open>alpha = 0.5\<close> and \<open>k = 2\<close>. The function returns the documents at indices 2
  and 1, in that order.
\<close>

theorem scenario_top_two:
  assumes "similarity_search vs [] (ntotal vs) = [d0, d1, d2, d3]"
    and "get_scores bm25 (py_split query) = [0, 2, 4, 2]"
    and "map snd (similarity_search_with_score vs query 4) = [1/10, 1/2, 1/20, 9/10]"
  shows "fusion_retrieval vs bm25 query 2 (1/2) = Inr [d2, d1]
       \<and> fusion_steps [d0, d1, d2, d3] [0, 2, 4, 2] [1/10, 1/2, 1/20, 9/10] 2 (1/2)
            = Inr [d2, d1]"
proof -
  have steps: "fusion_steps [d0, d1, d2, d3] [0, 2, 4, 2] [1/10, 1/2, 1/20, 9/10] 2 (1/2)
      = Inr [d2, d1]"
    by (simp add: fusion_steps_def normalize_vector_scores_def normalize_bm25_scores_def
        np_min_def np_max_def rank_top_k_def combined_scores_def np_add_def np_scale_def
        sorted_indices_def np_argsort_def py_slice_to_def epsilon_def)
  have len: "length [d0, d1, d2, d3] = 4"
    by simp
  have "fusion_retrieval vs bm25 query 2 (1/2)
      = fusion_steps [d0, d1, d2, d3] [0, 2, 4, 2] [1/10, 1/2, 1/20, 9/10] 2 (1/2)"
    unfolding fusion_retrieval_def Let_def assms(1) len assms(2) assms(3)
    by (rule refl)
  with steps show ?thesis
    by simp
qed

theorem scenario_top_two_witness:
  "fusion_retrieval
     (fixed_store [doc ''doc0'', doc ''doc1'', doc ''doc2'', doc ''doc3'']
        [1/10, 1/2, 1/20, 9/10])
     (fixed_bm25 [0, 2, 4, 2]) ''climate change'' 2 (1/2)
   = Inr [doc ''doc2'', doc ''doc1'']"
proof -
  let ?docs = "[doc ''doc0'', doc ''doc1'', doc ''doc2'', doc ''doc3'']"
  let ?vs = "fixed_store ?docs [1/10, 1/2, 1/20, 9/10]"
  have "similarity_search ?vs [] (ntotal ?vs) = ?docs"
    by (simp add: fixed_store_def)
  moreover have "get_scores (fixed_bm25 [0, 2, 4, 2]) (py_split ''climate change'') = [0, 2, 4, 2]"
    by (simp add: fixed_bm25_def)
  moreover have "map snd (similarity_search_with_score ?vs ''climate change'' 4)
      = [1/10, 1/2, 1/20, 9/10]"
    by (simp add: fixed_store_def)
  ultimately show ?thesis
    using scenario_top_two [of ?vs "doc ''doc0''" "doc ''doc1''" "doc ''doc2''" "doc ''doc3''"
        "fixed_bm25 [0, 2, 4, 2]" "''climate change''"]
    by simp
qed

text \<open>
  C1. The claim asks that position \<open>i\<close> of the BM25 scores, position \<open>i\<close> of the vector
  scores and \<open>all_docs[i]\<close> belong to one document. The function does not arrange that:
  the BM25 scores come in the order the index was built, \<open>all_docs\<close> in the order of the
  distance to the empty query, and the vector scores in the order of the distance to
  the query. On the store below the three orders differ. For the query
  \<open>coral reef ice\<close> both scorers put \<open>coral reef loss\<close> first (distance 0, BM25 score
  2), yet the function with \<open>k = 1\<close> returns \<open>arctic sea ice\<close>; on the same scores
  brought into corpus order, steps 4 to 7 return \<open>coral reef loss\<close>.
\<close>

theorem fusion_retrieval_scores_misaligned:
  "similarity_search (flat_index climate_embed climate_docs) [] 3
     = [doc ''arctic sea ice'', doc ''ocean currents'', doc ''coral reef loss'']
   \<and> similarity_search_with_score (flat_index climate_embed climate_docs) ''coral reef ice'' 3
     = [(doc ''coral reef loss'', 0), (doc ''ocean currents'', 4), (doc ''arctic sea ice'', 9)]
   \<and> get_scores (create_bm25_index overlap_index climate_docs) (py_split ''coral reef ice'')
     = [1, 0, 2]
   \<and> fusion_retrieval (flat_index climate_embed climate_docs)
        (create_bm25_index overlap_index climate_docs) ''coral reef ice'' 1 (1/2)
     = Inr [doc ''arctic sea ice'']
   \<and> fusion_steps climate_docs [1, 0, 2] [9, 4, 0] 1 (1/2) = Inr [doc ''coral reef loss'']"
proof -
  let ?vs = "flat_index climate_embed climate_docs"
  let ?bm = "create_bm25_index overlap_index climate_docs"
  have empty_hits: "flat_hits climate_embed climate_docs []
      = [(doc ''arctic sea ice'', 1), (doc ''ocean currents'', 4), (doc ''coral reef loss'', 16)]"
    by (simp add: flat_hits_def climate_docs_def climate_embed_def doc_def)
  have query_hits: "flat_hits climate_embed climate_docs ''coral reef ice''
      = [(doc ''coral reef loss'', 0), (doc ''ocean currents'', 4), (doc ''arctic sea ice'', 9)]"
    by (simp add: flat_hits_def climate_docs_def climate_embed_def doc_def)
  have all_docs: "similarity_search ?vs [] 3
      = [doc ''arctic sea ice'', doc ''ocean currents'', doc ''coral reef loss'']"
    by (simp add: flat_index_def empty_hits)
  have total: "ntotal ?vs = 3"
    by (simp add: flat_index_def climate_docs_def)
  have results: "similarity_search_with_score ?vs ''coral reef ice'' 3
      = [(doc ''coral reef loss'', 0), (doc ''ocean currents'', 4), (doc ''arctic sea ice'', 9)]"
    by (simp add: flat_index_def query_hits)
  have tokens: "py_split ''coral reef ice'' = [''coral'', ''reef'', ''ice'']"
    by (simp add: py_split_def py_isspace_def)
  have bm: "get_scores ?bm [''coral'', ''reef'', ''ice''] = [1, 0, 2]"
    by (simp add: create_bm25_index_def overlap_index_def climate_docs_def doc_def
        py_split_def py_isspace_def)
  have wrong: "fusion_steps
      [doc ''arctic sea ice'', doc ''ocean currents'', doc ''coral reef loss'']
      [1, 0, 2] [0, 4, 9] 1 (1/2) = Inr [doc ''arctic sea ice'']"
    by (simp add: fusion_steps_def normalize_vector_scores_def normalize_bm25_scores_def
        np_min_def np_max_def rank_top_k_def combined_scores_def np_add_def np_scale_def
        sorted_indices_def np_argsort_def py_slice_to_def epsilon_def)
  have right: "fusion_steps climate_docs [1, 0, 2] [9, 4, 0] 1 (1/2)
      = Inr [doc ''coral reef loss'']"
    by (simp add: fusion_steps_def normalize_vector_scores_def normalize_bm25_scores_def
        np_min_def np_max_def rank_top_k_def combined_scores_def np_add_def np_scale_def
        sorted_indices_def np_argsort_def py_slice_to_def epsilon_def climate_docs_def)
  have len: "length [doc ''arctic sea ice'', doc ''ocean currents'', doc ''coral reef loss'']
      = 3"
    by simp
  have scores: "map snd
      [(doc ''coral reef loss'', 0 :: real), (doc ''ocean currents'', 4), (doc ''arctic sea ice'', 9)]
      = [0, 4, 9]"
    by simp
  have "fusion_retrieval ?vs ?bm ''coral reef ice'' 1 (1/2) = Inr [doc ''arctic sea ice'']"
    unfolding fusion_retrieval_def Let_def total all_docs len results scores tokens bm
    by (rule wrong)
  then show ?thesis
    using all_docs results tokens bm right by simp
qed

end
